theory Spec2Isabelle
  imports Complex_Main "HOL-Library.Word"
begin

section \<open>The IC identity protocol as a profile of OAuth2: data model\<close>

text \<open>
  The development follows \<^verbatim>\<open>packages/identity-provider/src/protocol/ic-id-protocol.ts\<close>.
  A thrown exception is a value \<open>Inl e\<close> of a sum type, a returned value is \<open>Inr v\<close>.
  \<open>undefined\<close> is \<open>None\<close> for an optional string and \<open>JSUndefined\<close> for a value
  that may also be a number. A JavaScript string is a \<open>string\<close>, a \<open>Uint8Array\<close> a list
  of 8-bit words.
\<close>

datatype error =
    Error string
  | TypeError string
  | SyntaxError string
  | AssertionError

type_synonym Uint8Array = "8 word list"

text \<open>
  The values found in the fields of an OAuth2 message: a string, a number or
  \<open>undefined\<close>. The number type is a parameter \<open>'n\<close>; the conversion of a number to a
  string belongs to the platform and is passed to the functions that stringify.
\<close>

datatype 'n jsvalue = JSUndefined | JSString string | JSNumber 'n

fun ToString :: "('n \<Rightarrow> string) \<Rightarrow> 'n jsvalue \<Rightarrow> string" where
  "ToString Number_toString JSUndefined = ''undefined''"
| "ToString Number_toString (JSString s) = s"
| "ToString Number_toString (JSNumber n) = Number_toString n"

text \<open>The conversion of a string-or-undefined argument to the string a Web API receives.\<close>

fun USVString :: "string option \<Rightarrow> string" where
  "USVString None = ''undefined''"
| "USVString (Some s) = s"

text \<open>\<open>a || b\<close> on an optional string: the empty string and \<open>undefined\<close> are falsy.\<close>

fun or_default :: "string option \<Rightarrow> string \<Rightarrow> string" where
  "or_default None d = d"
| "or_default (Some s) d = (if s = [] then d else s)"

subsection \<open>Message shapes\<close>

text \<open>
  The two wire shapes of \<^verbatim>\<open>./oauth2\<close>, with the fields this file reads and writes.
  A message is one or the other; \<open>'access_token' in message\<close> holds for the first
  shape only.
\<close>

record 'n OAuth2AccessTokenResponse =
  access_token :: string
  expires_in :: 'n
  token_type :: "string option"
  state :: "string option"
  scope :: "string option"

record OAuth2AuthorizationRequest =
  response_type :: string
  login_hint :: string
  redirect_uri :: string
  scope :: "string option"
  state :: "string option"

datatype 'n OAuth2Mesage =
    AccessTokenResponse "'n OAuth2AccessTokenResponse"
  | AuthorizationRequest OAuth2AuthorizationRequest

text \<open>
  The protocol's own shapes. The constant field \<open>type\<close> of the source is the type of the
  record, and the constructor of \<open>IdpMessage\<close> where both shapes can occur.
\<close>

record SessionIdentity =
  hex :: string

record AuthenticationRequest =
  sessionIdentity :: SessionIdentity
  redirectUri :: string
  state :: "string option"
  scope :: string

record 'n AuthenticationResponse =
  accessToken :: string
  tokenType :: string
  expiresIn :: 'n
  state :: "string option"
  scope :: "string option"

datatype 'n IdpMessage =
    Request AuthenticationRequest
  | Response "'n AuthenticationResponse"

text \<open>What the functions write to the console.\<close>

datatype console =
    ConsoleLog string OAuth2AuthorizationRequest
  | ConsoleError string error

subsection \<open>URLs and their query parameters\<close>

text \<open>
  A \<open>URL\<close> object carries its list of query parameters, in order and with duplicates, next
  to the components that this file never touches. Parsing (\<open>new URL(text)\<close>, which throws
  on a text that is not an absolute URL) and serialising (\<open>toString()\<close>) belong to the
  platform; the functions below take them as the parameters \<open>URL_new\<close> and
  \<open>URL_toString\<close>.
\<close>

type_synonym URLSearchParams = "(string \<times> string) list"

record URL =
  origin :: string
  pathname :: string
  searchParams :: URLSearchParams
  hash :: string

definition URLSearchParams_get :: "string \<Rightarrow> URLSearchParams \<Rightarrow> string option" where
  "URLSearchParams_get name ps = map_of ps name"

definition URLSearchParams_delete :: "string \<Rightarrow> URLSearchParams \<Rightarrow> URLSearchParams" where
  "URLSearchParams_delete name ps = filter (\<lambda>p. fst p \<noteq> name) ps"

text \<open>
  \<open>set\<close> overwrites the first pair of that name and removes the others, or appends a
  pair when there is none.
\<close>

fun replace_first :: "string \<Rightarrow> string \<Rightarrow> URLSearchParams \<Rightarrow> URLSearchParams" where
  "replace_first name v [] = []"
| "replace_first name v (p # ps) =
     (if fst p = name then (name, v) # URLSearchParams_delete name ps
      else p # replace_first name v ps)"

definition URLSearchParams_set :: "string \<Rightarrow> string \<Rightarrow> URLSearchParams \<Rightarrow> URLSearchParams" where
  "URLSearchParams_set name v ps =
     (if name \<in> set (map fst ps) then replace_first name v ps else ps @ [(name, v)])"

section \<open>Conversions between the protocol and OAuth2\<close>

definition toOAuth2 :: "'n AuthenticationResponse \<Rightarrow> 'n OAuth2AccessTokenResponse" where
  "toOAuth2 message =
     \<lparr>access_token = accessToken message,
      expires_in = expiresIn message,
      token_type = Some (tokenType message),
      OAuth2AccessTokenResponse.state = AuthenticationResponse.state message,
      OAuth2AccessTokenResponse.scope = AuthenticationResponse.scope message\<rparr>"

definition AuthenticationResponse :: "'n OAuth2AccessTokenResponse \<Rightarrow> 'n AuthenticationResponse" where
  "AuthenticationResponse input =
     \<lparr>accessToken = access_token input,
      tokenType = or_default (token_type input) ''bearer'',
      expiresIn = expires_in input,
      AuthenticationResponse.state = OAuth2AccessTokenResponse.state input,
      AuthenticationResponse.scope = OAuth2AccessTokenResponse.scope input\<rparr>"

text \<open>
  \<open>AuthenticationRequest\<close> logs its input, then builds the request; \<open>new URL\<close> may throw.
  The result is the console output together with the value or the exception.
\<close>

definition AuthenticationRequest ::
  "(string \<Rightarrow> error + URL) \<Rightarrow> (URL \<Rightarrow> string) \<Rightarrow> OAuth2AuthorizationRequest
     \<Rightarrow> console list \<times> (error + AuthenticationRequest)" where
  "AuthenticationRequest URL_new URL_toString input =
     ([ConsoleLog ''AuthenticationRequest'' input],
      case URL_new (redirect_uri input) of
        Inl e \<Rightarrow> Inl e
      | Inr u \<Rightarrow>
          Inr \<lparr>sessionIdentity = \<lparr>hex = login_hint input\<rparr>,
               redirectUri = URL_toString u,
               AuthenticationRequest.state = OAuth2AuthorizationRequest.state input,
               AuthenticationRequest.scope =
                 or_default (OAuth2AuthorizationRequest.scope input) ''''\<rparr>)"

text \<open>
  \<open>fromQueryString\<close> takes the parser of \<^verbatim>\<open>./oauth2\<close> as the parameter
  \<open>oauth2Parser\<close>; \<open>None\<close> is \<open>undefined\<close>.
\<close>

definition fromQueryString ::
  "(URLSearchParams \<Rightarrow> error + 'n OAuth2Mesage option)
     \<Rightarrow> (string \<Rightarrow> error + URL) \<Rightarrow> (URL \<Rightarrow> string) \<Rightarrow> URLSearchParams
     \<Rightarrow> console list \<times> (error + 'n IdpMessage option)" where
  "fromQueryString oauth2Parser URL_new URL_toString params =
     (case oauth2Parser params of
        Inl e \<Rightarrow> ([], Inl e)
      | Inr None \<Rightarrow> ([], Inr None)
      | Inr (Some (AccessTokenResponse m)) \<Rightarrow> ([], Inr (Some (Response (AuthenticationResponse m))))
      | Inr (Some (AuthorizationRequest m)) \<Rightarrow>
          (case AuthenticationRequest URL_new URL_toString m of
             (out, Inl e) \<Rightarrow> (out, Inl e)
           | (out, Inr r) \<Rightarrow> (out, Inr (Some (Request r)))))"

text \<open>
  Modelled from the spec: the parser \<open>fromQueryString\<close> of \<^verbatim>\<open>./oauth2\<close>, whose
  source is not at hand. The spec: the presence of \<open>access_token\<close> makes the parameters
  an access-token response; otherwise they are an authorization request when its
  required fields \<open>login_hint\<close> and \<open>redirect_uri\<close> are present; otherwise nothing is
  recognised. \<open>toNumber\<close> reads the decimal text of \<open>expires_in\<close>.
\<close>

definition oauth2_fromQueryString ::
  "(string option \<Rightarrow> 'n) \<Rightarrow> URLSearchParams \<Rightarrow> error + 'n OAuth2Mesage option" where
  "oauth2_fromQueryString toNumber params =
     (case URLSearchParams_get ''access_token'' params of
        Some token \<Rightarrow>
          Inr (Some (AccessTokenResponse
            \<lparr>access_token = token,
             expires_in = toNumber (URLSearchParams_get ''expires_in'' params),
             token_type = URLSearchParams_get ''token_type'' params,
             OAuth2AccessTokenResponse.state = URLSearchParams_get ''state'' params,
             OAuth2AccessTokenResponse.scope = URLSearchParams_get ''scope'' params\<rparr>))
      | None \<Rightarrow>
          (case (URLSearchParams_get ''login_hint'' params,
                 URLSearchParams_get ''redirect_uri'' params) of
             (Some hint, Some uri) \<Rightarrow>
               Inr (Some (AuthorizationRequest
                 \<lparr>response_type = ''token'',
                  login_hint = hint,
                  redirect_uri = uri,
                  OAuth2AuthorizationRequest.scope = URLSearchParams_get ''scope'' params,
                  OAuth2AuthorizationRequest.state = URLSearchParams_get ''state'' params\<rparr>))
           | _ \<Rightarrow> Inr None))"

section \<open>Bearer tokens\<close>

text \<open>
  The value \<open>JSON.parse\<close> returns. An object holds its own properties, one pair per key.
  A number is the real it denotes: all that is asked of it here is whether it is zero.
\<close>

datatype json =
    JNull
  | JBool bool
  | JNumber real
  | JString string
  | JArray "json list"
  | JObject "(string \<times> json) list"

text \<open>
  \<open>parsed.name\<close>, for the names \<open>publicKey\<close> and \<open>delegations\<close>, which no primitive,
  array or prototype defines: reading a property of \<open>null\<close> throws a \<open>TypeError\<close>, an
  object gives its own property or \<open>undefined\<close> (\<open>None\<close>), anything else \<open>undefined\<close>.
\<close>

fun getProperty :: "json \<Rightarrow> string \<Rightarrow> error + json option" where
  "getProperty JNull name = Inl (TypeError (''Cannot read property '' @ name @ '' of null''))"
| "getProperty (JObject props) name = Inr (map_of props name)"
| "getProperty v name = Inr None"

text \<open>\<open>typeof v === 'string'\<close>.\<close>

fun is_string :: "json option \<Rightarrow> bool" where
  "is_string (Some (JString s)) = True"
| "is_string v = False"

text \<open>
  Truthiness, as \<open>assert.ok\<close> tests it: \<open>undefined\<close>, \<open>null\<close>, \<open>false\<close>, zero and the empty
  string are falsy, every array and object is truthy.
\<close>

fun truthy :: "json option \<Rightarrow> bool" where
  "truthy None = False"
| "truthy (Some JNull) = False"
| "truthy (Some (JBool b)) = b"
| "truthy (Some (JNumber x)) = (x \<noteq> 0)"
| "truthy (Some (JString s)) = (s \<noteq> [])"
| "truthy (Some (JArray xs)) = True"
| "truthy (Some (JObject props)) = True"

text \<open>The object \<open>result\<close> that \<open>parseBearerToken\<close> builds from the two checked fields.\<close>

fun narrowed :: "json option \<Rightarrow> json option \<Rightarrow> json" where
  "narrowed publicKey delegations =
     JObject ((case publicKey of None \<Rightarrow> [] | Some v \<Rightarrow> [(''publicKey'', v)]) @
              (case delegations of None \<Rightarrow> [] | Some v \<Rightarrow> [(''delegations'', v)]))"

text \<open>
  \<open>hexToBytes\<close> (of \<^verbatim>\<open>../bytes\<close>), the UTF-8 decoder and \<open>JSON.parse\<close> are parameters.
  The function returns \<open>parsed\<close>; \<open>result\<close> is built and dropped.
\<close>

definition parseBearerToken ::
  "(string \<Rightarrow> error + Uint8Array) \<Rightarrow> (Uint8Array \<Rightarrow> string) \<Rightarrow> (string \<Rightarrow> error + json)
     \<Rightarrow> string \<Rightarrow> error + json" where
  "parseBearerToken hexToBytes decodeUtf8 JSON_parse icIdpBearerToken =
     (case hexToBytes icIdpBearerToken of
        Inl e \<Rightarrow> Inl e
      | Inr bytes \<Rightarrow>
     (case JSON_parse (decodeUtf8 bytes) of
        Inl e \<Rightarrow> Inl e
      | Inr parsed \<Rightarrow>
     (case getProperty parsed ''publicKey'' of
        Inl e \<Rightarrow> Inl e
      | Inr publicKey \<Rightarrow>
     (case getProperty parsed ''delegations'' of
        Inl e \<Rightarrow> Inl e
      | Inr delegations \<Rightarrow>
          if \<not> is_string publicKey then Inl (Error ''publicKey must be a string'')
          else if \<not> truthy delegations then Inl AssertionError
          else (let result = narrowed publicKey delegations in Inr parsed)))))"

record 'd createBearerToken_spec =
  delegationChain :: 'd

definition createBearerToken ::
  "(Uint8Array \<Rightarrow> string) \<Rightarrow> (string \<Rightarrow> Uint8Array) \<Rightarrow> ('d \<Rightarrow> string)
     \<Rightarrow> 'd createBearerToken_spec \<Rightarrow> string" where
  "createBearerToken hexEncodeUintArray encodeUtf8 JSON_stringify spec =
     hexEncodeUintArray (encodeUtf8 (JSON_stringify (delegationChain spec)))"

section \<open>Building redirect URLs\<close>

definition toOauth :: "AuthenticationRequest \<Rightarrow> OAuth2AuthorizationRequest" where
  "toOauth idpRequest =
     \<lparr>response_type = ''token'',
      login_hint = hex (sessionIdentity idpRequest),
      redirect_uri = redirectUri idpRequest,
      OAuth2AuthorizationRequest.scope = Some (AuthenticationRequest.scope idpRequest),
      OAuth2AuthorizationRequest.state = AuthenticationRequest.state idpRequest\<rparr>"

text \<open>
  \<open>Object.entries\<close> lists the properties in the order the object literal wrote them; a
  property written with the value \<open>undefined\<close> is listed too.
\<close>

definition entries_OAuth2AuthorizationRequest ::
  "OAuth2AuthorizationRequest \<Rightarrow> (string \<times> string option) list" where
  "entries_OAuth2AuthorizationRequest m =
     [(''response_type'', Some (response_type m)),
      (''login_hint'', Some (login_hint m)),
      (''redirect_uri'', Some (redirect_uri m)),
      (''scope'', OAuth2AuthorizationRequest.scope m),
      (''state'', OAuth2AuthorizationRequest.state m)]"

fun of_option :: "string option \<Rightarrow> 'n jsvalue" where
  "of_option None = JSUndefined"
| "of_option (Some s) = JSString s"

definition entries_OAuth2AccessTokenResponse ::
  "'n OAuth2AccessTokenResponse \<Rightarrow> (string \<times> 'n jsvalue) list" where
  "entries_OAuth2AccessTokenResponse m =
     [(''access_token'', JSString (access_token m)),
      (''expires_in'', JSNumber (expires_in m)),
      (''token_type'', of_option (token_type m)),
      (''state'', of_option (OAuth2AccessTokenResponse.state m)),
      (''scope'', of_option (OAuth2AccessTokenResponse.scope m))]"

record createAuthenticationRequestUrl_spec =
  identityProviderUrl :: URL
  authenticationRequest :: AuthenticationRequest

definition createAuthenticationRequestUrl ::
  "(string \<Rightarrow> error + URL) \<Rightarrow> (URL \<Rightarrow> string) \<Rightarrow> createAuthenticationRequestUrl_spec
     \<Rightarrow> error + URL" where
  "createAuthenticationRequestUrl URL_new URL_toString spec =
     (case URL_new (URL_toString (identityProviderUrl spec)) of
        Inl e \<Rightarrow> Inl e
      | Inr url \<Rightarrow>
          Inr (foldl
                (\<lambda>u (key, v). u\<lparr>searchParams := URLSearchParams_set key (USVString v) (searchParams u)\<rparr>)
                url
                (entries_OAuth2AuthorizationRequest (toOauth (authenticationRequest spec)))))"

definition createResponseRedirectUrl ::
  "(string \<Rightarrow> error + URL) \<Rightarrow> ('n \<Rightarrow> string) \<Rightarrow> 'n AuthenticationResponse \<Rightarrow> string
     \<Rightarrow> error + URL" where
  "createResponseRedirectUrl URL_new Number_toString authResponse requestRedirectUri =
     (let oauth2Response = toOAuth2 authResponse in
      case URL_new requestRedirectUri of
        Inl e \<Rightarrow> Inl e
      | Inr redirectUrl \<Rightarrow>
          Inr (foldl
                (\<lambda>u (key, v).
                   if v = JSUndefined
                   then u\<lparr>searchParams := URLSearchParams_delete key (searchParams u)\<rparr>
                   else u\<lparr>searchParams :=
                            URLSearchParams_set key (ToString Number_toString v) (searchParams u)\<rparr>)
                redirectUrl
                (entries_OAuth2AccessTokenResponse oauth2Response)))"

section \<open>Scope strings\<close>

text \<open>
  The principal codec of \<^verbatim>\<open>@dfinity/agent\<close> is a pair of parameters: \<open>fromText\<close>, which
  throws on a text that is no principal, and \<open>toText\<close>.
\<close>

record 'p ICanisterScope =
  principal :: 'p

record 'p IParsedScopeString =
  canisters :: "'p ICanisterScope list"

text \<open>\<open>text.split(c)\<close> for a separator of one character, and \<open>array.join(sep)\<close>.\<close>

fun String_split :: "char \<Rightarrow> string \<Rightarrow> string list" where
  "String_split c [] = [[]]"
| "String_split c (x # xs) =
     (if x = c then [] # String_split c xs
      else (case String_split c xs of
              [] \<Rightarrow> [[x]]
            | w # ws \<Rightarrow> (x # w) # ws))"

fun Array_join :: "string \<Rightarrow> string list \<Rightarrow> string" where
  "Array_join sep [] = []"
| "Array_join sep [x] = x"
| "Array_join sep (x # y # ys) = x @ sep @ Array_join sep (y # ys)"

definition scopeSegments :: "string \<Rightarrow> string list" where
  "scopeSegments scopeText = filter (\<lambda>s. s \<noteq> []) (String_split (CHR '' '') scopeText)"

text \<open>
  The callback of \<open>map\<close> runs on the segments from left to right; the first segment that
  \<open>fromText\<close> rejects is logged and its exception thrown again, which ends the loop.
\<close>

fun decodeSegments ::
  "(string \<Rightarrow> error + 'p) \<Rightarrow> string list \<Rightarrow> console list \<times> (error + 'p ICanisterScope list)" where
  "decodeSegments fromText [] = ([], Inr [])"
| "decodeSegments fromText (principalText # rest) =
     (case fromText principalText of
        Inl e \<Rightarrow> ([ConsoleError ''Error decoding scope segment as Principal Text'' e], Inl e)
      | Inr p \<Rightarrow>
          (case decodeSegments fromText rest of
             (out, Inl e) \<Rightarrow> (out, Inl e)
           | (out, Inr cs) \<Rightarrow> (out, Inr (\<lparr>principal = p\<rparr> # cs))))"

definition parseScopeString ::
  "(string \<Rightarrow> error + 'p) \<Rightarrow> string \<Rightarrow> console list \<times> (error + 'p IParsedScopeString)" where
  "parseScopeString fromText scopeText =
     (case decodeSegments fromText (scopeSegments scopeText) of
        (out, Inl e) \<Rightarrow> (out, Inl e)
      | (out, Inr cs) \<Rightarrow> (out, Inr \<lparr>canisters = cs\<rparr>))"

definition stringifyScope :: "('p \<Rightarrow> string) \<Rightarrow> 'p IParsedScopeString \<Rightarrow> string" where
  "stringifyScope toText scopeDescription =
     (let segments = map (\<lambda>cs. toText (principal cs)) (canisters scopeDescription)
      in Array_join '' '' segments)"

section \<open>Instances of the parameters\<close>

text \<open>
  The concrete instances used where a statement is evaluated on an input. A principal of
  the instance codec is its own canonical text; the codec knows the management canister
  and the anonymous principal and rejects every other text.
\<close>

definition example_fromText :: "string \<Rightarrow> error + string" where
  "example_fromText t =
     (if t = ''aaaaa-aa'' \<or> t = ''2vxsx-fae'' then Inr t
      else Inl (Error (''Invalid principal text: '' @ t)))"

definition example_toText :: "string \<Rightarrow> string" where
  "example_toText p = p"

text \<open>
  The platform's URL parser on the texts of the scenarios, every other text taken as
  malformed, and a serialiser for URLs whose parameters need no percent-encoding.
\<close>

definition example_URL_new :: "string \<Rightarrow> error + URL" where
  "example_URL_new text =
     (if text = ''https://rp.example'' \<or> text = ''https://rp.example/'' then
        Inr \<lparr>origin = ''https://rp.example'', pathname = ''/'', searchParams = [], hash = ''''\<rparr>
      else if text = ''https://rp.example/cb'' then
        Inr \<lparr>origin = ''https://rp.example'', pathname = ''/cb'', searchParams = [], hash = ''''\<rparr>
      else if text = ''https://rp.example/cb?foo=1'' then
        Inr \<lparr>origin = ''https://rp.example'', pathname = ''/cb'',
             searchParams = [(''foo'', ''1'')], hash = ''''\<rparr>
      else if text = ''https://idp.example/authorize'' then
        Inr \<lparr>origin = ''https://idp.example'', pathname = ''/authorize'', searchParams = [],
             hash = ''''\<rparr>
      else Inl (TypeError (''Invalid URL: '' @ text)))"

definition example_URL_toString :: "URL \<Rightarrow> string" where
  "example_URL_toString u =
     origin u @ pathname u @
     (if searchParams u = [] then []
      else ''?'' @ Array_join ''&'' (map (\<lambda>p. fst p @ ''='' @ snd p) (searchParams u))) @
     hash u"

text \<open>
  Numbers for the scenarios: a natural, or \<open>None\<close> for \<open>NaN\<close>, read from and written
  as decimal digits.
\<close>

fun digit_value :: "char \<Rightarrow> nat option" where
  "digit_value c =
     (let n = of_char c :: nat in if 48 \<le> n \<and> n \<le> 57 then Some (n - 48) else None)"

fun decimal_value :: "nat \<Rightarrow> string \<Rightarrow> nat option" where
  "decimal_value acc [] = Some acc"
| "decimal_value acc (c # cs) =
     (case digit_value c of None \<Rightarrow> None | Some d \<Rightarrow> decimal_value (10 * acc + d) cs)"

fun example_toNumber :: "string option \<Rightarrow> nat option" where
  "example_toNumber None = None"
| "example_toNumber (Some []) = None"
| "example_toNumber (Some (c # cs)) = decimal_value 0 (c # cs)"

fun decimal :: "nat \<Rightarrow> string" where
  "decimal n = (if n < 10 then [char_of (48 + n)] else decimal (n div 10) @ [char_of (48 + n mod 10)])"

declare decimal.simps [simp del]

fun example_Number_toString :: "nat option \<Rightarrow> string" where
  "example_Number_toString None = ''NaN''"
| "example_Number_toString (Some n) = decimal n"

text \<open>
  The byte pipeline of the bearer token: lower-case hexadecimal digits, two per byte, and
  UTF-8 on ASCII text, where a character is one byte.
\<close>

definition hex_digit :: "char \<Rightarrow> nat option" where
  "hex_digit c =
     (let n = of_char c :: nat in
      if 48 \<le> n \<and> n \<le> 57 then Some (n - 48)
      else if 97 \<le> n \<and> n \<le> 102 then Some (n - 87)
      else None)"

fun example_hexToBytes :: "string \<Rightarrow> error + Uint8Array" where
  "example_hexToBytes [] = Inr []"
| "example_hexToBytes [c] = Inl (Error ''odd number of hex digits'')"
| "example_hexToBytes (a # b # rest) =
     (case (hex_digit a, hex_digit b) of
        (Some x, Some y) \<Rightarrow>
          (case example_hexToBytes rest of
             Inl e \<Rightarrow> Inl e
           | Inr bytes \<Rightarrow> Inr (of_nat (16 * x + y) # bytes))
      | _ \<Rightarrow> Inl (Error ''not a hex digit''))"

definition hex_char :: "nat \<Rightarrow> char" where
  "hex_char d = (if d < 10 then char_of (48 + d) else char_of (87 + d))"

definition example_hexEncodeUintArray :: "Uint8Array \<Rightarrow> string" where
  "example_hexEncodeUintArray bytes =
     concat (map (\<lambda>b. [hex_char (unat b div 16), hex_char (unat b mod 16)]) bytes)"

definition example_decodeUtf8 :: "Uint8Array \<Rightarrow> string" where
  "example_decodeUtf8 bytes = map (\<lambda>b. char_of (unat b)) bytes"

definition example_encodeUtf8 :: "string \<Rightarrow> Uint8Array" where
  "example_encodeUtf8 text = map (\<lambda>c. of_nat (of_char c)) text"

text \<open>
  \<open>JSON.parse\<close> on the JSON texts of the scenarios, every other text taken as a syntax
  error, and \<open>JSON.stringify\<close> on the one value that is encoded.
\<close>

definition JSON_quote :: "string \<Rightarrow> string" where
  "JSON_quote s = CHR 0x22 # s @ [CHR 0x22]"

definition example_json_extra :: string where
  "example_json_extra =
     ''{'' @ JSON_quote ''publicKey'' @ '':'' @ JSON_quote ''k'' @ '','' @
     JSON_quote ''delegations'' @ '':[],'' @ JSON_quote ''extra'' @ '':1}''"

definition example_json_false :: string where
  "example_json_false =
     ''{'' @ JSON_quote ''publicKey'' @ '':'' @ JSON_quote ''k'' @ '','' @
     JSON_quote ''delegations'' @ '':false}''"

definition example_json_zero :: string where
  "example_json_zero =
     ''{'' @ JSON_quote ''publicKey'' @ '':'' @ JSON_quote ''k'' @ '','' @
     JSON_quote ''delegations'' @ '':0}''"

definition example_json_nokey :: string where
  "example_json_nokey = ''{'' @ JSON_quote ''delegations'' @ '':[]}''"

definition example_json_nodelegations :: string where
  "example_json_nodelegations = ''{'' @ JSON_quote ''publicKey'' @ '':'' @ JSON_quote ''k'' @ ''}''"

definition example_JSON_parse :: "string \<Rightarrow> error + json" where
  "example_JSON_parse text =
     (if text = example_json_extra then
        Inr (JObject [(''publicKey'', JString ''k''), (''delegations'', JArray []),
                      (''extra'', JNumber 1)])
      else if text = example_json_false then
        Inr (JObject [(''publicKey'', JString ''k''), (''delegations'', JBool False)])
      else if text = example_json_zero then
        Inr (JObject [(''publicKey'', JString ''k''), (''delegations'', JNumber 0)])
      else if text = example_json_nokey then
        Inr (JObject [(''delegations'', JArray [])])
      else if text = example_json_nodelegations then
        Inr (JObject [(''publicKey'', JString ''k'')])
      else if text = ''null'' then Inr JNull
      else Inl (SyntaxError ''Unexpected token''))"

definition example_JSON_stringify :: "json \<Rightarrow> string" where
  "example_JSON_stringify v =
     (if v = JObject [(''publicKey'', JString ''k''), (''delegations'', JArray []),
                      (''extra'', JNumber 1)]
      then example_json_extra else ''null'')"

section \<open>Properties of the scope codec\<close>

lemma String_split_not_Nil: "String_split c s \<noteq> []"
  by (induction s) (auto split: list.splits)

lemma String_split_no_sep: "c \<notin> set w \<Longrightarrow> String_split c w = [w]"
  by (induction w) auto

lemma String_split_append:
  "c \<notin> set w \<Longrightarrow> String_split c (w @ c # rest) = w # String_split c rest"
  by (induction w) auto

lemma String_split_join:
  "xs \<noteq> [] \<Longrightarrow> list_all (\<lambda>x. c \<notin> set x) xs \<Longrightarrow> String_split c (Array_join [c] xs) = xs"
proof (induction "[c]" xs rule: Array_join.induct)
  case 1
  then show ?case by simp
next
  case (2 x)
  then show ?case by (simp add: String_split_no_sep)
next
  case (3 x y ys)
  then show ?case by (simp add: String_split_append)
qed

text \<open>Every text is the join of the pieces \<open>split\<close> cuts it into, and no piece holds the separator.\<close>

lemma Array_join_Cons_Cons: "Array_join sep ((a # x) # xs) = a # Array_join sep (x # xs)"
  by (cases xs) simp_all

lemma Array_join_Nil_Cons: "xs \<noteq> [] \<Longrightarrow> Array_join sep ([] # xs) = sep @ Array_join sep xs"
  by (cases xs) simp_all

lemma Array_join_String_split: "Array_join [c] (String_split c s) = s"
proof (induction s)
  case Nil
  show ?case by simp
next
  case (Cons a s)
  obtain w ws where w: "String_split c s = w # ws"
    using String_split_not_Nil [of c s] by (cases "String_split c s") auto
  with Cons show ?case
    by (simp add: Array_join_Cons_Cons Array_join_Nil_Cons)
qed

lemma String_split_free: "list_all (\<lambda>x. c \<notin> set x) (String_split c s)"
  by (induction s) (auto split: list.splits)

lemma scopeSegments_join:
  "list_all (\<lambda>x. CHR '' '' \<notin> set x) xs \<Longrightarrow>
   scopeSegments (Array_join '' '' xs) = filter (\<lambda>x. x \<noteq> []) xs"
proof (cases xs)
  case Nil
  then show ?thesis by (simp add: scopeSegments_def)
next
  case (Cons a list)
  assume "list_all (\<lambda>x. CHR '' '' \<notin> set x) xs"
  with Cons have "String_split (CHR '' '') (Array_join '' '' xs) = xs"
    using String_split_join [of xs "CHR '' ''"] by simp
  then show ?thesis by (simp add: scopeSegments_def)
qed

lemma decodeSegments_all_ok:
  "list_all (\<lambda>c. fromText (toText (principal c)) = Inr (principal c)) L \<Longrightarrow>
   decodeSegments fromText (map (\<lambda>cs. toText (principal cs)) L) = ([], Inr L)"
  by (induction L) auto

lemma decodeSegments_first_failure:
  "find (\<lambda>t. isl (fromText t)) ts = Some t \<Longrightarrow>
   decodeSegments fromText ts =
     ([ConsoleError ''Error decoding scope segment as Principal Text'' (projl (fromText t))],
      Inl (projl (fromText t)))"
proof (induction ts)
  case Nil
  then show ?case by simp
next
  case (Cons a ts)
  show ?case
  proof (cases "fromText a")
    case (Inl e)
    with Cons.prems show ?thesis by simp
  next
    case (Inr p)
    with Cons.prems have "find (\<lambda>t. isl (fromText t)) ts = Some t" by simp
    from Cons.IH [OF this] Inr show ?thesis by simp
  qed
qed

text \<open>
  Claim C1. Encoding a list of canister scopes and decoding the result gives the list
  back, in the same order, with nothing written to the console. An identifier is valid
  when the codec decodes its canonical text back to it and that text is a non-empty word
  without a space, as the canonical text of a principal is.
\<close>

theorem scope_roundtrip:
  assumes "\<forall>c \<in> set L. fromText (toText (principal c)) = Inr (principal c)"
    and "\<forall>c \<in> set L. toText (principal c) \<noteq> [] \<and> CHR '' '' \<notin> set (toText (principal c))"
  shows "parseScopeString fromText (stringifyScope toText \<lparr>canisters = L\<rparr>)
           = ([], Inr \<lparr>canisters = L\<rparr>)"
proof -
  let ?texts = "map (\<lambda>cs. toText (principal cs)) L"
  have nosp: "list_all (\<lambda>x. CHR '' '' \<notin> set x) ?texts"
    using assms(2) by (simp add: list_all_iff)
  have nonempty: "filter (\<lambda>x. x \<noteq> []) ?texts = ?texts"
    using assms(2) by (simp add: filter_id_conv)
  have "scopeSegments (stringifyScope toText \<lparr>canisters = L\<rparr>) = ?texts"
    using scopeSegments_join [OF nosp] nonempty by (simp add: stringifyScope_def)
  moreover have "decodeSegments fromText ?texts = ([], Inr L)"
    using assms(1) by (intro decodeSegments_all_ok) (simp add: list_all_iff)
  ultimately show ?thesis by (simp add: parseScopeString_def)
qed

theorem scope_roundtrip_witness:
  "example_fromText (example_toText ''aaaaa-aa'') = Inr ''aaaaa-aa'' \<and>
   example_fromText (example_toText ''2vxsx-fae'') = Inr ''2vxsx-fae'' \<and>
   parseScopeString example_fromText
     (stringifyScope example_toText
        \<lparr>canisters = [\<lparr>principal = ''aaaaa-aa''\<rparr>, \<lparr>principal = ''2vxsx-fae''\<rparr>]\<rparr>)
   = ([], Inr \<lparr>canisters = [\<lparr>principal = ''aaaaa-aa''\<rparr>, \<lparr>principal = ''2vxsx-fae''\<rparr>]\<rparr>)"
  using scope_roundtrip [of "[\<lparr>principal = ''aaaaa-aa''\<rparr>, \<lparr>principal = ''2vxsx-fae''\<rparr>]"
      example_fromText example_toText]
  by (simp add: example_fromText_def example_toText_def)

text \<open>
  Claim C9. When the codec rejects a segment of the scope string, \<open>parseScopeString\<close>
  throws: the exception is the one the codec threw for the first rejected segment,
  unchanged, the console holds that one diagnostic, and no list of canisters is returned.
\<close>

theorem parseScopeString_propagates:
  assumes "t \<in> set (scopeSegments scopeText)" and "isl (fromText t)"
  shows "\<exists>bad. find (\<lambda>t. isl (fromText t)) (scopeSegments scopeText) = Some bad \<and>
           parseScopeString fromText scopeText =
             ([ConsoleError ''Error decoding scope segment as Principal Text''
                 (projl (fromText bad))],
              Inl (projl (fromText bad)))"
proof -
  from assms obtain bad
    where bad: "find (\<lambda>t. isl (fromText t)) (scopeSegments scopeText) = Some bad"
    by (cases "find (\<lambda>t. isl (fromText t)) (scopeSegments scopeText)") (auto simp: find_None_iff)
  from decodeSegments_first_failure [OF bad] show ?thesis
    using bad by (simp add: parseScopeString_def)
qed

text \<open>The scenario of the spec: \<open>'not-a-principal'\<close>, which the instance codec rejects.\<close>

theorem parseScopeString_propagates_witness:
  "''not-a-principal'' \<in> set (scopeSegments ''not-a-principal'') \<and>
   isl (example_fromText ''not-a-principal'') \<and>
   parseScopeString example_fromText ''not-a-principal'' =
     ([ConsoleError ''Error decoding scope segment as Principal Text''
         (Error ''Invalid principal text: not-a-principal'')],
      Inl (Error ''Invalid principal text: not-a-principal''))"
  using parseScopeString_propagates [of "''not-a-principal''" "''not-a-principal''" example_fromText]
  by (simp add: example_fromText_def scopeSegments_def)

text \<open>
  Claim C10, as the code has it. The separator is the space character alone. A scope
  string is the join, by single spaces, of pieces without a space (\<open>Array_join_String_split\<close>,
  \<open>String_split_free\<close>); the empty pieces are what leading, trailing and repeated spaces
  leave. The segments are the non-empty pieces in order, and the result of
  \<open>parseScopeString\<close> is that of decoding each of them in turn.
\<close>

theorem parseScopeString_space_delimited:
  assumes "\<forall>x \<in> set xs. CHR '' '' \<notin> set x"
  shows "scopeSegments (Array_join '' '' xs) = filter (\<lambda>x. x \<noteq> []) xs \<and>
         map_prod id (map_sum id canisters) (parseScopeString fromText (Array_join '' '' xs)) =
           decodeSegments fromText (filter (\<lambda>x. x \<noteq> []) xs)"
proof -
  have segs: "scopeSegments (Array_join '' '' xs) = filter (\<lambda>x. x \<noteq> []) xs"
    using assms by (intro scopeSegments_join) (simp add: list_all_iff)
  then show ?thesis
    by (simp add: parseScopeString_def split: prod.splits sum.splits)
qed

theorem parseScopeString_space_delimited_witness:
  "Array_join '' '' ['''', ''aaaaa-aa'', '''', ''2vxsx-fae'', ''''] = '' aaaaa-aa  2vxsx-fae '' \<and>
   parseScopeString example_fromText '' aaaaa-aa  2vxsx-fae '' =
     ([], Inr \<lparr>canisters = [\<lparr>principal = ''aaaaa-aa''\<rparr>, \<lparr>principal = ''2vxsx-fae''\<rparr>]\<rparr>)"
  using parseScopeString_space_delimited
          [of "['''', ''aaaaa-aa'', '''', ''2vxsx-fae'', '''']" example_fromText]
  by (simp add: example_fromText_def parseScopeString_def split: prod.splits sum.splits)

text \<open>
  Claim C10, as stated, fails on a tab: two principal texts separated by a tab are one
  segment, which the codec rejects, while the same texts separated by a space are two.
\<close>

theorem parseScopeString_tab_counterexample:
  "scopeSegments (''aaaaa-aa'' @ [CHR 0x09] @ ''2vxsx-fae'')
     = [''aaaaa-aa'' @ [CHR 0x09] @ ''2vxsx-fae''] \<and>
   isl (snd (parseScopeString example_fromText (''aaaaa-aa'' @ [CHR 0x09] @ ''2vxsx-fae''))) \<and>
   parseScopeString example_fromText (''aaaaa-aa'' @ '' '' @ ''2vxsx-fae'') =
     ([], Inr \<lparr>canisters = [\<lparr>principal = ''aaaaa-aa''\<rparr>, \<lparr>principal = ''2vxsx-fae''\<rparr>]\<rparr>)"
  by (simp add: scopeSegments_def parseScopeString_def example_fromText_def)

section \<open>Properties of the conversions\<close>

text \<open>
  Claim C7. Decoding an OAuth2 authorization request throws what \<open>new URL\<close> throws when
  \<open>redirect_uri\<close> is no absolute URL; when it is one, the decoded \<open>redirectUri\<close> is the
  serialisation of the parsed URL, not the text received.
\<close>

theorem AuthenticationRequest_redirect_uri:
  "(URL_new (redirect_uri input) = Inl e \<longrightarrow>
      snd (AuthenticationRequest URL_new URL_toString input) = Inl e) \<and>
   (URL_new (redirect_uri input) = Inr u \<longrightarrow>
      (\<exists>r. snd (AuthenticationRequest URL_new URL_toString input) = Inr r \<and>
           redirectUri r = URL_toString u))"
  by (simp add: AuthenticationRequest_def)

text \<open>
  A text that is no URL, and the URL \<open>https://rp.example\<close>, which comes back with the
  path \<open>/\<close>.
\<close>

theorem AuthenticationRequest_redirect_uri_witness:
  "example_URL_new ''not a url'' = Inl (TypeError ''Invalid URL: not a url'') \<and>
   snd (AuthenticationRequest example_URL_new example_URL_toString
     \<lparr>response_type = ''token'', login_hint = ''deadbeef'', redirect_uri = ''not a url'',
      OAuth2AuthorizationRequest.scope = None, OAuth2AuthorizationRequest.state = None\<rparr>)
     = Inl (TypeError ''Invalid URL: not a url'') \<and>
   map_sum id redirectUri (snd (AuthenticationRequest example_URL_new example_URL_toString
     \<lparr>response_type = ''token'', login_hint = ''deadbeef'', redirect_uri = ''https://rp.example'',
      OAuth2AuthorizationRequest.scope = None, OAuth2AuthorizationRequest.state = None\<rparr>))
     = Inr ''https://rp.example/''"
  using AuthenticationRequest_redirect_uri
          [of example_URL_new
              "\<lparr>response_type = ''token'', login_hint = ''deadbeef'', redirect_uri = ''not a url'',
                OAuth2AuthorizationRequest.scope = None, OAuth2AuthorizationRequest.state = None\<rparr>"
              "TypeError ''Invalid URL: not a url''" example_URL_toString]
        AuthenticationRequest_redirect_uri
          [of example_URL_new
              "\<lparr>response_type = ''token'', login_hint = ''deadbeef'',
                redirect_uri = ''https://rp.example'',
                OAuth2AuthorizationRequest.scope = None, OAuth2AuthorizationRequest.state = None\<rparr>"
              _ example_URL_toString
              "\<lparr>origin = ''https://rp.example'', pathname = ''/'', searchParams = [], hash = ''''\<rparr>"]
  by (auto simp add: example_URL_new_def example_URL_toString_def)

text \<open>
  Claim C8. For a request whose \<open>redirectUri\<close> parses, converting to OAuth2 and back gives
  the request with \<open>redirectUri\<close> replaced by its normal form, and the request itself when
  \<open>redirectUri\<close> is in normal form already.
\<close>

theorem request_roundtrip:
  assumes "URL_new (redirectUri r) = Inr u"
  shows "snd (AuthenticationRequest URL_new URL_toString (toOauth r))
           = Inr (r\<lparr>redirectUri := URL_toString u\<rparr>) \<and>
         (URL_toString u = redirectUri r \<longrightarrow>
            snd (AuthenticationRequest URL_new URL_toString (toOauth r)) = Inr r)"
  using assms by (simp add: AuthenticationRequest_def toOauth_def)

theorem request_roundtrip_witness:
  "example_URL_new ''https://rp.example/cb'' =
     Inr \<lparr>origin = ''https://rp.example'', pathname = ''/cb'', searchParams = [], hash = ''''\<rparr> \<and>
   example_URL_toString
     \<lparr>origin = ''https://rp.example'', pathname = ''/cb'', searchParams = [], hash = ''''\<rparr>
     = ''https://rp.example/cb'' \<and>
   snd (AuthenticationRequest example_URL_new example_URL_toString
     (toOauth \<lparr>sessionIdentity = \<lparr>hex = ''deadbeef''\<rparr>, redirectUri = ''https://rp.example/cb'',
               AuthenticationRequest.state = Some ''xyz'',
               AuthenticationRequest.scope = ''aaaaa-aa 2vxsx-fae''\<rparr>))
     = Inr \<lparr>sessionIdentity = \<lparr>hex = ''deadbeef''\<rparr>, redirectUri = ''https://rp.example/cb'',
            AuthenticationRequest.state = Some ''xyz'',
            AuthenticationRequest.scope = ''aaaaa-aa 2vxsx-fae''\<rparr>"
  using request_roundtrip
          [of example_URL_new
              "\<lparr>sessionIdentity = \<lparr>hex = ''deadbeef''\<rparr>, redirectUri = ''https://rp.example/cb'',
                AuthenticationRequest.state = Some ''xyz'',
                AuthenticationRequest.scope = ''aaaaa-aa 2vxsx-fae''\<rparr>"
              "\<lparr>origin = ''https://rp.example'', pathname = ''/cb'', searchParams = [], hash = ''''\<rparr>"
              example_URL_toString]
  by (simp add: example_URL_new_def example_URL_toString_def)

section \<open>Properties of the query-string decoder\<close>

lemma example_toNumber_3600: "example_toNumber (Some ''3600'') = Some 3600"
  by code_simp

lemma example_Number_toString_3600: "example_Number_toString (Some 3600) = ''3600''"
  by code_simp

lemma URLSearchParams_get_delete_other:
  "k \<noteq> k' \<Longrightarrow> URLSearchParams_get k (URLSearchParams_delete k' ps) = URLSearchParams_get k ps"
  by (induction ps) (auto simp: URLSearchParams_get_def URLSearchParams_delete_def)

text \<open>
  Claim C3, for the parser as the spec describes it. With \<open>access_token\<close> present the
  result is the response built from \<open>access_token\<close>, \<open>token_type\<close>, \<open>expires_in\<close>, \<open>state\<close>
  and \<open>scope\<close>, and it does not change when every \<open>login_hint\<close> is removed from the
  parameters. Without \<open>access_token\<close> and with \<open>login_hint\<close> and \<open>redirect_uri\<close> the
  result is that of decoding the authorization request, a request or the exception of a
  malformed \<open>redirect_uri\<close>. Otherwise, and so for no parameters at all, the result is
  \<open>undefined\<close>.
\<close>

theorem fromQueryString_classification:
  "(URLSearchParams_get ''access_token'' params = Some token \<longrightarrow>
      fromQueryString (oauth2_fromQueryString toNumber) URL_new URL_toString params =
        ([], Inr (Some (Response
           \<lparr>accessToken = token,
            tokenType = or_default (URLSearchParams_get ''token_type'' params) ''bearer'',
            expiresIn = toNumber (URLSearchParams_get ''expires_in'' params),
            AuthenticationResponse.state = URLSearchParams_get ''state'' params,
            AuthenticationResponse.scope = URLSearchParams_get ''scope'' params\<rparr>))) \<and>
      fromQueryString (oauth2_fromQueryString toNumber) URL_new URL_toString
          (URLSearchParams_delete ''login_hint'' params) =
        fromQueryString (oauth2_fromQueryString toNumber) URL_new URL_toString params) \<and>
   (URLSearchParams_get ''access_token'' params = None \<and>
    URLSearchParams_get ''login_hint'' params = Some hint \<and>
    URLSearchParams_get ''redirect_uri'' params = Some uri \<longrightarrow>
      fromQueryString (oauth2_fromQueryString toNumber) URL_new URL_toString params =
        map_prod id (map_sum id (\<lambda>r. Some (Request r)))
          (AuthenticationRequest URL_new URL_toString
             \<lparr>response_type = ''token'', login_hint = hint, redirect_uri = uri,
              OAuth2AuthorizationRequest.scope = URLSearchParams_get ''scope'' params,
              OAuth2AuthorizationRequest.state = URLSearchParams_get ''state'' params\<rparr>)) \<and>
   (URLSearchParams_get ''access_token'' params = None \<and>
    (URLSearchParams_get ''login_hint'' params = None \<or>
     URLSearchParams_get ''redirect_uri'' params = None) \<longrightarrow>
      fromQueryString (oauth2_fromQueryString toNumber) URL_new URL_toString params
        = ([], Inr None))"
proof (intro conjI impI)
  assume tok: "URLSearchParams_get ''access_token'' params = Some token"
  then show "fromQueryString (oauth2_fromQueryString toNumber) URL_new URL_toString params =
        ([], Inr (Some (Response
           \<lparr>accessToken = token,
            tokenType = or_default (URLSearchParams_get ''token_type'' params) ''bearer'',
            expiresIn = toNumber (URLSearchParams_get ''expires_in'' params),
            AuthenticationResponse.state = URLSearchParams_get ''state'' params,
            AuthenticationResponse.scope = URLSearchParams_get ''scope'' params\<rparr>)))"
    by (simp add: fromQueryString_def oauth2_fromQueryString_def AuthenticationResponse_def)
  from tok show "fromQueryString (oauth2_fromQueryString toNumber) URL_new URL_toString
          (URLSearchParams_delete ''login_hint'' params) =
        fromQueryString (oauth2_fromQueryString toNumber) URL_new URL_toString params"
    by (simp add: fromQueryString_def oauth2_fromQueryString_def URLSearchParams_get_delete_other)
next
  assume "URLSearchParams_get ''access_token'' params = None \<and>
    URLSearchParams_get ''login_hint'' params = Some hint \<and>
    URLSearchParams_get ''redirect_uri'' params = Some uri"
  then show "fromQueryString (oauth2_fromQueryString toNumber) URL_new URL_toString params =
        map_prod id (map_sum id (\<lambda>r. Some (Request r)))
          (AuthenticationRequest URL_new URL_toString
             \<lparr>response_type = ''token'', login_hint = hint, redirect_uri = uri,
              OAuth2AuthorizationRequest.scope = URLSearchParams_get ''scope'' params,
              OAuth2AuthorizationRequest.state = URLSearchParams_get ''state'' params\<rparr>)"
    by (simp add: fromQueryString_def oauth2_fromQueryString_def AuthenticationRequest_def
             split: sum.splits)
next
  assume "URLSearchParams_get ''access_token'' params = None \<and>
    (URLSearchParams_get ''login_hint'' params = None \<or>
     URLSearchParams_get ''redirect_uri'' params = None)"
  then show "fromQueryString (oauth2_fromQueryString toNumber) URL_new URL_toString params
        = ([], Inr None)"
    by (auto simp add: fromQueryString_def oauth2_fromQueryString_def split: option.splits)
qed

theorem fromQueryString_classification_witness:
  "fromQueryString (oauth2_fromQueryString example_toNumber) example_URL_new example_URL_toString
     [(''access_token'', ''ab12''), (''login_hint'', ''deadbeef''),
      (''redirect_uri'', ''https://rp.example/cb''), (''expires_in'', ''3600'')]
     = ([], Inr (Some (Response
          \<lparr>accessToken = ''ab12'', tokenType = ''bearer'', expiresIn = Some 3600,
           AuthenticationResponse.state = None, AuthenticationResponse.scope = None\<rparr>))) \<and>
   fromQueryString (oauth2_fromQueryString example_toNumber) example_URL_new example_URL_toString
     [(''login_hint'', ''deadbeef''), (''redirect_uri'', ''https://rp.example/cb'')]
     = ([ConsoleLog ''AuthenticationRequest''
           \<lparr>response_type = ''token'', login_hint = ''deadbeef'',
            redirect_uri = ''https://rp.example/cb'',
            OAuth2AuthorizationRequest.scope = None, OAuth2AuthorizationRequest.state = None\<rparr>],
        Inr (Some (Request
          \<lparr>sessionIdentity = \<lparr>hex = ''deadbeef''\<rparr>, redirectUri = ''https://rp.example/cb'',
           AuthenticationRequest.state = None, AuthenticationRequest.scope = ''''\<rparr>))) \<and>
   fromQueryString (oauth2_fromQueryString example_toNumber) example_URL_new example_URL_toString []
     = ([], Inr None) \<and>
   fromQueryString (oauth2_fromQueryString example_toNumber) example_URL_new example_URL_toString
     [(''login_hint'', ''deadbeef'')] = ([], Inr None)"
  using fromQueryString_classification
          [of "[(''access_token'', ''ab12''), (''login_hint'', ''deadbeef''),
                (''redirect_uri'', ''https://rp.example/cb''), (''expires_in'', ''3600'')]"
              "''ab12''" example_toNumber example_URL_new example_URL_toString]
        fromQueryString_classification
          [of "[(''login_hint'', ''deadbeef''), (''redirect_uri'', ''https://rp.example/cb'')]"
              _ example_toNumber example_URL_new example_URL_toString
              "''deadbeef''" "''https://rp.example/cb''"]
        fromQueryString_classification
          [of "[]" _ example_toNumber example_URL_new example_URL_toString]
        fromQueryString_classification
          [of "[(''login_hint'', ''deadbeef'')]" _ example_toNumber example_URL_new
              example_URL_toString]
  by (simp add: URLSearchParams_get_def example_toNumber_3600 AuthenticationRequest_def
        example_URL_new_def example_URL_toString_def del: example_toNumber.simps)

section \<open>Properties of the redirect URLs\<close>

text \<open>What \<open>set\<close> and \<open>delete\<close> do to the parameters of a given name and to the others.\<close>

lemma filter_URLSearchParams_delete:
  "\<forall>p. fst p = k \<longrightarrow> \<not> P p \<Longrightarrow> filter P (URLSearchParams_delete k ps) = filter P ps"
  unfolding URLSearchParams_delete_def by (induction ps) auto

lemma filter_replace_first:
  "\<forall>p. fst p = k \<longrightarrow> \<not> P p \<Longrightarrow> filter P (replace_first k v ps) = filter P ps"
  by (induction ps) (auto simp: filter_URLSearchParams_delete)

lemma filter_URLSearchParams_set:
  "\<forall>p. fst p = k \<longrightarrow> \<not> P p \<Longrightarrow> filter P (URLSearchParams_set k v ps) = filter P ps"
  by (simp add: URLSearchParams_set_def filter_replace_first)

lemma filter_key_URLSearchParams_delete:
  "filter (\<lambda>p. fst p = k) (URLSearchParams_delete k ps) = []"
  unfolding URLSearchParams_delete_def by (induction ps) auto

lemma filter_key_replace_first:
  "k \<in> set (map fst ps) \<Longrightarrow> filter (\<lambda>p. fst p = k) (replace_first k v ps) = [(k, v)]"
  by (induction ps) (auto simp: filter_key_URLSearchParams_delete)

lemma filter_key_URLSearchParams_set:
  "filter (\<lambda>p. fst p = k) (URLSearchParams_set k v ps) = [(k, v)]"
proof (cases "k \<in> set (map fst ps)")
  case True
  then show ?thesis by (simp add: URLSearchParams_set_def filter_key_replace_first)
next
  case False
  then have "filter (\<lambda>p. fst p = k) ps = []"
    by (induction ps) auto
  with False show ?thesis by (simp add: URLSearchParams_set_def)
qed

lemma URLSearchParams_get_filter:
  "URLSearchParams_get k ps = map_of (filter (\<lambda>p. fst p = k) ps) k"
  by (induction ps) (auto simp: URLSearchParams_get_def)

lemma URLSearchParams_get_set: "URLSearchParams_get k (URLSearchParams_set k v ps) = Some v"
  by (simp add: URLSearchParams_get_filter [of k "URLSearchParams_set k v ps"]
        filter_key_URLSearchParams_set)

text \<open>
  Claim C4 asks that a request without \<open>state\<close> gives a URL without a \<open>state\<close>
  parameter. The code does otherwise: \<open>toOauth\<close> writes the property \<open>state\<close> with the
  value \<open>undefined\<close>, \<open>Object.entries\<close> lists it, and \<open>searchParams.set\<close> stores the
  text \<open>undefined\<close>. The theorem states what the code does.
\<close>

theorem createAuthenticationRequestUrl_state_undefined:
  assumes "AuthenticationRequest.state r = None"
    and "URL_new (URL_toString idp) = Inr u"
  shows "\<exists>url. createAuthenticationRequestUrl URL_new URL_toString
                 \<lparr>identityProviderUrl = idp, authenticationRequest = r\<rparr> = Inr url \<and>
               URLSearchParams_get ''state'' (searchParams url) = Some ''undefined''"
  using assms
  by (simp add: createAuthenticationRequestUrl_def entries_OAuth2AuthorizationRequest_def
        toOauth_def URLSearchParams_get_set)

theorem createAuthenticationRequestUrl_state_undefined_witness:
  "createAuthenticationRequestUrl example_URL_new example_URL_toString
     \<lparr>identityProviderUrl =
        \<lparr>origin = ''https://idp.example'', pathname = ''/authorize'', searchParams = [], hash = ''''\<rparr>,
      authenticationRequest =
        \<lparr>sessionIdentity = \<lparr>hex = ''deadbeef''\<rparr>, redirectUri = ''https://rp.example/cb'',
         AuthenticationRequest.state = None, AuthenticationRequest.scope = ''aaaaa-aa''\<rparr>\<rparr>
   = Inr \<lparr>origin = ''https://idp.example'', pathname = ''/authorize'',
          searchParams =
            [(''response_type'', ''token''), (''login_hint'', ''deadbeef''),
             (''redirect_uri'', ''https://rp.example/cb''), (''scope'', ''aaaaa-aa''),
             (''state'', ''undefined'')],
          hash = ''''\<rparr>"
  using createAuthenticationRequestUrl_state_undefined
          [of "\<lparr>sessionIdentity = \<lparr>hex = ''deadbeef''\<rparr>, redirectUri = ''https://rp.example/cb'',
                AuthenticationRequest.state = None, AuthenticationRequest.scope = ''aaaaa-aa''\<rparr>"
              example_URL_new example_URL_toString
              "\<lparr>origin = ''https://idp.example'', pathname = ''/authorize'', searchParams = [],
                hash = ''''\<rparr>"]
  by (simp add: createAuthenticationRequestUrl_def entries_OAuth2AuthorizationRequest_def
        toOauth_def URLSearchParams_set_def example_URL_new_def example_URL_toString_def)

text \<open>
  Claim C6, as the code has it: for a \<open>requestRedirectUri\<close> that parses. The URL
  returned differs from the parsed one in its query parameters only. The parameters named otherwise than the five fields of the
  response stay as they were, in order. Each of \<open>access_token\<close>, \<open>expires_in\<close> and
  \<open>token_type\<close> occurs once, with the value of the response; \<open>state\<close> and \<open>scope\<close> occur
  once with their value when the response has one, and not at all when it has none.
\<close>

theorem createResponseRedirectUrl_params:
  assumes "URL_new requestRedirectUri = Inr u"
  shows "\<exists>url. createResponseRedirectUrl URL_new Number_toString authResponse requestRedirectUri
                 = Inr url \<and>
           origin url = origin u \<and> pathname url = pathname u \<and> hash url = hash u \<and>
           filter (\<lambda>p. fst p \<notin> set [''access_token'', ''expires_in'', ''token_type'', ''state'', ''scope''])
               (searchParams url) =
             filter (\<lambda>p. fst p \<notin> set [''access_token'', ''expires_in'', ''token_type'', ''state'', ''scope''])
               (searchParams u) \<and>
           filter (\<lambda>p. fst p = ''access_token'') (searchParams url)
             = [(''access_token'', accessToken authResponse)] \<and>
           filter (\<lambda>p. fst p = ''expires_in'') (searchParams url)
             = [(''expires_in'', Number_toString (expiresIn authResponse))] \<and>
           filter (\<lambda>p. fst p = ''token_type'') (searchParams url)
             = [(''token_type'', tokenType authResponse)] \<and>
           filter (\<lambda>p. fst p = ''state'') (searchParams url)
             = (case AuthenticationResponse.state authResponse of
                  None \<Rightarrow> [] | Some s \<Rightarrow> [(''state'', s)]) \<and>
           filter (\<lambda>p. fst p = ''scope'') (searchParams url)
             = (case AuthenticationResponse.scope authResponse of
                  None \<Rightarrow> [] | Some s \<Rightarrow> [(''scope'', s)])"
proof -
  note rules = createResponseRedirectUrl_def entries_OAuth2AccessTokenResponse_def toOAuth2_def
    filter_URLSearchParams_set filter_URLSearchParams_delete
    filter_key_URLSearchParams_set filter_key_URLSearchParams_delete
  show ?thesis
  proof (cases "AuthenticationResponse.state authResponse")
    case None
    note st = this
    show ?thesis
    proof (cases "AuthenticationResponse.scope authResponse")
      case None
      with st assms show ?thesis by (simp add: rules)
    next
      case (Some sc)
      with st assms show ?thesis by (simp add: rules)
    qed
  next
    case (Some s)
    note st = this
    show ?thesis
    proof (cases "AuthenticationResponse.scope authResponse")
      case None
      with st assms show ?thesis by (simp add: rules)
    next
      case (Some sc)
      with st assms show ?thesis by (simp add: rules)
    qed
  qed
qed

text \<open>The second scenario of the spec.\<close>

theorem createResponseRedirectUrl_params_witness:
  "example_URL_new ''https://rp.example/cb?foo=1'' =
     Inr \<lparr>origin = ''https://rp.example'', pathname = ''/cb'',
          searchParams = [(''foo'', ''1'')], hash = ''''\<rparr> \<and>
   createResponseRedirectUrl example_URL_new example_Number_toString
     \<lparr>accessToken = ''ab12'', tokenType = ''bearer'', expiresIn = Some 3600,
      AuthenticationResponse.state = None, AuthenticationResponse.scope = None\<rparr>
     ''https://rp.example/cb?foo=1''
   = Inr \<lparr>origin = ''https://rp.example'', pathname = ''/cb'',
          searchParams =
            [(''foo'', ''1''), (''access_token'', ''ab12''), (''expires_in'', ''3600''),
             (''token_type'', ''bearer'')],
          hash = ''''\<rparr>"
  using createResponseRedirectUrl_params
          [of example_URL_new "''https://rp.example/cb?foo=1''"
              "\<lparr>origin = ''https://rp.example'', pathname = ''/cb'',
                searchParams = [(''foo'', ''1'')], hash = ''''\<rparr>"
              example_Number_toString
              "\<lparr>accessToken = ''ab12'', tokenType = ''bearer'', expiresIn = Some 3600,
                AuthenticationResponse.state = None, AuthenticationResponse.scope = None\<rparr>"]
  by (simp add: createResponseRedirectUrl_def entries_OAuth2AccessTokenResponse_def toOAuth2_def
        URLSearchParams_set_def URLSearchParams_delete_def example_URL_new_def
        example_Number_toString_3600 del: example_Number_toString.simps)

text \<open>
  Claim C6, as stated for every string, fails on a text that is no URL: \<open>new URL\<close>
  throws and no URL is returned.
\<close>

theorem createResponseRedirectUrl_malformed_counterexample:
  "createResponseRedirectUrl example_URL_new example_Number_toString
     \<lparr>accessToken = ''ab12'', tokenType = ''bearer'', expiresIn = Some 3600,
      AuthenticationResponse.state = None, AuthenticationResponse.scope = None\<rparr>
     ''not a url''
   = Inl (TypeError ''Invalid URL: not a url'')"
  by (simp add: createResponseRedirectUrl_def example_URL_new_def)

section \<open>Properties of the bearer-token codec\<close>

text \<open>The instances at the tokens of the scenarios.\<close>

lemma example_token_extra:
  "example_hexToBytes
     ''7b227075626c69634b6579223a226b222c2264656c65676174696f6e73223a5b5d2c226578747261223a317d''
   = Inr (example_encodeUtf8 example_json_extra)"
  by code_simp

lemma example_token_false:
  "example_hexToBytes
     ''7b227075626c69634b6579223a226b222c2264656c65676174696f6e73223a66616c73657d''
   = Inr (example_encodeUtf8 example_json_false)"
  by code_simp

lemma example_token_zero:
  "example_hexToBytes ''7b227075626c69634b6579223a226b222c2264656c65676174696f6e73223a307d''
   = Inr (example_encodeUtf8 example_json_zero)"
  by code_simp

lemma example_token_nokey:
  "example_hexToBytes ''7b2264656c65676174696f6e73223a5b5d7d''
   = Inr (example_encodeUtf8 example_json_nokey)"
  by code_simp

lemma example_token_nodelegations:
  "example_hexToBytes ''7b227075626c69634b6579223a226b227d''
   = Inr (example_encodeUtf8 example_json_nodelegations)"
  by code_simp

lemma example_utf8_extra: "example_decodeUtf8 (example_encodeUtf8 example_json_extra) = example_json_extra"
  by code_simp

lemma example_utf8_false: "example_decodeUtf8 (example_encodeUtf8 example_json_false) = example_json_false"
  by code_simp

lemma example_utf8_zero: "example_decodeUtf8 (example_encodeUtf8 example_json_zero) = example_json_zero"
  by code_simp

lemma example_utf8_nokey: "example_decodeUtf8 (example_encodeUtf8 example_json_nokey) = example_json_nokey"
  by code_simp

lemma example_utf8_nodelegations:
  "example_decodeUtf8 (example_encodeUtf8 example_json_nodelegations) = example_json_nodelegations"
  by code_simp

lemma example_hex_extra:
  "example_hexEncodeUintArray (example_encodeUtf8 example_json_extra) =
     ''7b227075626c69634b6579223a226b222c2264656c65676174696f6e73223a5b5d2c226578747261223a317d''"
  by code_simp

lemma example_JSON_parse_extra:
  "example_JSON_parse example_json_extra =
     Inr (JObject [(''publicKey'', JString ''k''), (''delegations'', JArray []), (''extra'', JNumber 1)])"
  by (simp add: example_JSON_parse_def)

lemma example_JSON_parse_false:
  "example_JSON_parse example_json_false =
     Inr (JObject [(''publicKey'', JString ''k''), (''delegations'', JBool False)])"
  by (simp add: example_JSON_parse_def example_json_extra_def example_json_false_def JSON_quote_def)

lemma example_JSON_parse_zero:
  "example_JSON_parse example_json_zero =
     Inr (JObject [(''publicKey'', JString ''k''), (''delegations'', JNumber 0)])"
  by (simp add: example_JSON_parse_def example_json_extra_def example_json_false_def
        example_json_zero_def JSON_quote_def)

lemma example_JSON_parse_nokey:
  "example_JSON_parse example_json_nokey = Inr (JObject [(''delegations'', JArray [])])"
  by (simp add: example_JSON_parse_def example_json_extra_def example_json_false_def
        example_json_zero_def example_json_nokey_def JSON_quote_def)

lemma example_JSON_parse_nodelegations:
  "example_JSON_parse example_json_nodelegations = Inr (JObject [(''publicKey'', JString ''k'')])"
  by (simp add: example_JSON_parse_def example_json_extra_def example_json_false_def
        example_json_zero_def example_json_nokey_def example_json_nodelegations_def JSON_quote_def)

text \<open>The falsy values, and the token that decodes to \<open>null\<close>.\<close>

lemma falsy_values:
  "(\<not> truthy v) =
     (v = None \<or> v = Some JNull \<or> v = Some (JBool False) \<or> v = Some (JNumber 0) \<or>
      v = Some (JString []))"
proof (cases v)
  case None
  then show ?thesis by simp
next
  case (Some j)
  then show ?thesis by (cases j) auto
qed

lemma parseBearerToken_null:
  "hexToBytes token = Inr bytes \<Longrightarrow> JSON_parse (decodeUtf8 bytes) = Inr JNull \<Longrightarrow>
   parseBearerToken hexToBytes decodeUtf8 JSON_parse token
     = Inl (TypeError ''Cannot read property publicKey of null'')"
  by (simp add: parseBearerToken_def)

text \<open>
  Claim C2, as the code has it. When the token decodes to a value whose \<open>publicKey\<close> is a
  string and whose \<open>delegations\<close> is truthy, \<open>parseBearerToken\<close> returns the parsed value
  itself, with every field it carries. So a token made by \<open>createBearerToken\<close> from a
  chain \<open>d\<close> decodes to the JSON form of \<open>d\<close>, whenever the hex and UTF-8 codecs invert each
  other on its text and that form has a string \<open>publicKey\<close> and a truthy \<open>delegations\<close>.
\<close>

theorem parseBearerToken_returns_parsed:
  "(hexToBytes token = Inr bytes \<and> JSON_parse (decodeUtf8 bytes) = Inr parsed \<and>
    getProperty parsed ''publicKey'' = Inr (Some (JString pk)) \<and>
    getProperty parsed ''delegations'' = Inr delegations \<and> truthy delegations \<longrightarrow>
      parseBearerToken hexToBytes decodeUtf8 JSON_parse token = Inr parsed) \<and>
   (hexToBytes (hexEncodeUintArray (encodeUtf8 (JSON_stringify d)))
      = Inr (encodeUtf8 (JSON_stringify d)) \<and>
    decodeUtf8 (encodeUtf8 (JSON_stringify d)) = JSON_stringify d \<and>
    JSON_parse (JSON_stringify d) = Inr parsed \<and>
    getProperty parsed ''publicKey'' = Inr (Some (JString pk)) \<and>
    getProperty parsed ''delegations'' = Inr delegations \<and> truthy delegations \<longrightarrow>
      parseBearerToken hexToBytes decodeUtf8 JSON_parse
        (createBearerToken hexEncodeUintArray encodeUtf8 JSON_stringify \<lparr>delegationChain = d\<rparr>)
      = Inr parsed)"
  by (simp add: parseBearerToken_def createBearerToken_def)

text \<open>
  A token whose JSON has a third field: the value returned has it, the object \<open>narrowed\<close>
  builds has not.
\<close>

theorem parseBearerToken_returns_parsed_witness:
  "parseBearerToken example_hexToBytes example_decodeUtf8 example_JSON_parse
     ''7b227075626c69634b6579223a226b222c2264656c65676174696f6e73223a5b5d2c226578747261223a317d''
     = Inr (JObject [(''publicKey'', JString ''k''), (''delegations'', JArray []),
                     (''extra'', JNumber 1)]) \<and>
   narrowed (Some (JString ''k'')) (Some (JArray []))
     = JObject [(''publicKey'', JString ''k''), (''delegations'', JArray [])] \<and>
   parseBearerToken example_hexToBytes example_decodeUtf8 example_JSON_parse
     (createBearerToken example_hexEncodeUintArray example_encodeUtf8 example_JSON_stringify
        \<lparr>delegationChain = JObject [(''publicKey'', JString ''k''), (''delegations'', JArray []),
                                    (''extra'', JNumber 1)]\<rparr>)
     = Inr (JObject [(''publicKey'', JString ''k''), (''delegations'', JArray []),
                     (''extra'', JNumber 1)])"
  using parseBearerToken_returns_parsed
          [of example_hexToBytes
              "''7b227075626c69634b6579223a226b222c2264656c65676174696f6e73223a5b5d2c226578747261223a317d''"
              "example_encodeUtf8 example_json_extra"
              example_JSON_parse example_decodeUtf8
              "JObject [(''publicKey'', JString ''k''), (''delegations'', JArray []),
                        (''extra'', JNumber 1)]"
              "''k''" "Some (JArray [])"
              example_hexEncodeUintArray example_encodeUtf8 example_JSON_stringify
              "JObject [(''publicKey'', JString ''k''), (''delegations'', JArray []),
                        (''extra'', JNumber 1)]"]
  by (simp add: example_token_extra example_utf8_extra example_JSON_parse_extra
        example_hex_extra example_JSON_stringify_def del: example_hexToBytes.simps)

text \<open>
  Claim C2, as stated, fails where \<open>delegations\<close> is present and falsy: with
  \<open>"delegations":false\<close> the function throws and returns nothing.
\<close>

theorem parseBearerToken_false_counterexample:
  "parseBearerToken example_hexToBytes example_decodeUtf8 example_JSON_parse
     ''7b227075626c69634b6579223a226b222c2264656c65676174696f6e73223a66616c73657d''
     = Inl AssertionError \<and>
   example_decodeUtf8 (example_encodeUtf8 example_json_false) = example_json_false \<and>
   example_JSON_parse example_json_false
     = Inr (JObject [(''publicKey'', JString ''k''), (''delegations'', JBool False)]) \<and>
   getProperty (JObject [(''publicKey'', JString ''k''), (''delegations'', JBool False)])
     ''delegations'' = Inr (Some (JBool False))"
  by (simp add: parseBearerToken_def example_token_false example_utf8_false
        example_JSON_parse_false del: example_hexToBytes.simps)

text \<open>
  Claim C5, as the code has it. For a token that decodes to a value other than \<open>null\<close>:
  when \<open>publicKey\<close> is not a string the function throws
  \<open>Error('publicKey must be a string')\<close>; when it is a string, the function throws the
  assertion error of \<open>assert.ok\<close> exactly when \<open>delegations\<close> is falsy, that is
  \<open>undefined\<close>, \<open>null\<close>, \<open>false\<close>, \<open>0\<close> or the empty string, and returns otherwise.
\<close>

theorem parseBearerToken_validation:
  assumes "hexToBytes token = Inr bytes"
    and "JSON_parse (decodeUtf8 bytes) = Inr parsed"
    and "getProperty parsed ''publicKey'' = Inr publicKey"
    and "getProperty parsed ''delegations'' = Inr delegations"
  shows "(\<not> is_string publicKey \<longrightarrow>
            parseBearerToken hexToBytes decodeUtf8 JSON_parse token
              = Inl (Error ''publicKey must be a string'')) \<and>
         (is_string publicKey \<longrightarrow>
            (parseBearerToken hexToBytes decodeUtf8 JSON_parse token = Inl AssertionError)
              = (delegations = None \<or> delegations = Some JNull \<or>
                 delegations = Some (JBool False) \<or> delegations = Some (JNumber 0) \<or>
                 delegations = Some (JString []))) \<and>
         (is_string publicKey \<and> delegations \<noteq> None \<and> delegations \<noteq> Some JNull \<and>
          delegations \<noteq> Some (JBool False) \<and> delegations \<noteq> Some (JNumber 0) \<and>
          delegations \<noteq> Some (JString []) \<longrightarrow>
            parseBearerToken hexToBytes decodeUtf8 JSON_parse token = Inr parsed)"
  using assms falsy_values [of delegations]
  by (auto simp add: parseBearerToken_def)

text \<open>A token without \<open>publicKey\<close>, and a token without \<open>delegations\<close>.\<close>

theorem parseBearerToken_validation_witness:
  "parseBearerToken example_hexToBytes example_decodeUtf8 example_JSON_parse
     ''7b2264656c65676174696f6e73223a5b5d7d'' = Inl (Error ''publicKey must be a string'') \<and>
   parseBearerToken example_hexToBytes example_decodeUtf8 example_JSON_parse
     ''7b227075626c69634b6579223a226b227d'' = Inl AssertionError"
  using parseBearerToken_validation
          [of example_hexToBytes "''7b2264656c65676174696f6e73223a5b5d7d''"
              "example_encodeUtf8 example_json_nokey" example_JSON_parse example_decodeUtf8
              "JObject [(''delegations'', JArray [])]" None "Some (JArray [])"]
        parseBearerToken_validation
          [of example_hexToBytes "''7b227075626c69634b6579223a226b227d''"
              "example_encodeUtf8 example_json_nodelegations" example_JSON_parse example_decodeUtf8
              "JObject [(''publicKey'', JString ''k'')]" "Some (JString ''k'')" None]
  by (simp add: example_token_nokey example_utf8_nokey example_JSON_parse_nokey
        example_token_nodelegations example_utf8_nodelegations example_JSON_parse_nodelegations
        del: example_hexToBytes.simps)

text \<open>
  Claim C5, as stated, fails where \<open>delegations\<close> is neither \<open>null\<close> nor \<open>undefined\<close> and
  yet falsy: with \<open>"delegations":0\<close> the check throws.
\<close>

theorem parseBearerToken_zero_counterexample:
  "parseBearerToken example_hexToBytes example_decodeUtf8 example_JSON_parse
     ''7b227075626c69634b6579223a226b222c2264656c65676174696f6e73223a307d''
     = Inl AssertionError \<and>
   example_decodeUtf8 (example_encodeUtf8 example_json_zero) = example_json_zero \<and>
   example_JSON_parse example_json_zero
     = Inr (JObject [(''publicKey'', JString ''k''), (''delegations'', JNumber 0)]) \<and>
   getProperty (JObject [(''publicKey'', JString ''k''), (''delegations'', JNumber 0)])
     ''delegations'' = Inr (Some (JNumber 0))"
  by (simp add: parseBearerToken_def example_token_zero example_utf8_zero
        example_JSON_parse_zero del: example_hexToBytes.simps)

end
